theory Spec2Isabelle
  imports Complex_Main
begin

section \<open>Module constants of \<open>bash/__init__.py\<close>\<close>

text \<open>
  Python values that can be handed to the stream arguments \<open>stdin\<close>, \<open>stdout\<close> and
  \<open>stderr\<close>: \<open>None\<close>, an integer (the sentinels of \<open>subprocess\<close> are integers, and so is a
  file descriptor), a \<open>str\<close>, or any other object (a file object, say), given by the name
  of its type and an identity.
\<close>

datatype pyval = PNone | PInt int | PStr string | PObj string nat

text \<open>\<open>type(v).__name__\<close>.\<close>

fun py_type_name :: "pyval \<Rightarrow> string" where
  "py_type_name PNone = ''NoneType''"
| "py_type_name (PInt i) = ''int''"
| "py_type_name (PStr s) = ''str''"
| "py_type_name (PObj n i) = n"

definition PIPE :: pyval where
  "PIPE = PInt (- 1)"

definition STDOUT :: pyval where
  "STDOUT = PInt (- 2)"

definition DEVNULL :: pyval where
  "DEVNULL = PInt (- 3)"

definition BASH :: string where
  "BASH = ''/usr/bin/bash''"

text \<open>The four status strings \<open>_S_RUN\<close>, \<open>_S_COMPLETE\<close>, \<open>_S_TIMEOUT\<close>, \<open>_S_KILL\<close>.\<close>

datatype status = S_RUN | S_COMPLETE | S_TIMEOUT | S_KILL

definition D_ARGS :: "string list" where
  "D_ARGS = []"

definition D_E_CODES :: "int list" where
  "D_E_CODES = [0]"

definition D_MAX_TIME :: int where
  "D_MAX_TIME = 60"

text \<open>\<open>_D_CWD\<close> is \<open>os.path.abspath('.')\<close> at load time; the model keeps the relative name.\<close>

definition D_CWD :: string where
  "D_CWD = ''.''"

definition L_MAX_TIME :: int where
  "L_MAX_TIME = 60 * 60 * 24 * 2"


section \<open>The operating system and \<open>subprocess.Popen\<close>\<close>

text \<open>
  An exception of Python: its class name and \<open>str(e)\<close>.
\<close>

record py_exception =
  exc_class :: string
  exc_msg :: string

text \<open>The handle \<open>subprocess.Popen\<close> returns, with the arguments it was made from.\<close>

record popen =
  p_args :: "string list"
  p_stdin :: pyval
  p_stdout :: pyval
  p_stderr :: pyval
  p_cwd :: string
  p_env :: "(string \<times> string) list option"
  p_pid :: int

text \<open>
  What a method of a constructed instance does, in program order: the calls into the
  operating system and the stores to the attributes of the instance.
\<close>

datatype attr = A_code | A_status | A_e_time | A_stdout | A_stderr

datatype event =
  Ev_poll | Ev_time | Ev_kill | Ev_wait | Ev_communicate | Ev_store attr | Ev_log

text \<open>One record of the log file, as \<open>_log\<close> writes it.\<close>

record log_record =
  l_cmd :: string
  l_args :: "string list"
  l_code :: "int option"
  l_stdout :: "string option"
  l_stderr :: "string option"
  l_s_time :: real
  l_e_time :: "real option"

text \<open>
  The world outside the instance. Every call that observes it (\<open>time.time()\<close>, \<open>poll\<close>,
  \<open>kill\<close>, \<open>wait\<close>, \<open>communicate\<close>) advances \<open>tick\<close>; what the call sees is given by
  functions of the tick, which are arbitrary: \<open>clock\<close> is the reading of \<open>time.time()\<close>
  (a float in Python, a real here), \<open>exit_status\<close> what a non-blocking \<open>poll\<close> of the child
  returns, \<open>out_data\<close> and \<open>err_data\<close> what is left to read from the child's pipes, and
  \<open>drain_error\<close> whether reading them raises (\<open>UnicodeDecodeError\<close> on output that is not
  valid text, say). \<open>spawn_error\<close>, \<open>write_error\<close> and \<open>close_error\<close> say whether
  \<open>Popen(...)\<close>, the write of a text to the child's stdin and the close of that pipe raise.
  \<open>stdin_buf\<close> and \<open>stdin_closed\<close> are what the constructor has written to the child's stdin
  pipe and whether it has closed it; \<open>drain_broken\<close> says that a call of \<open>communicate\<close> on
  the child has failed before it set up its buffers.
\<close>

record world =
  tick :: nat
  clock :: "nat \<Rightarrow> real"
  exit_status :: "nat \<Rightarrow> int option"
  out_data :: "nat \<Rightarrow> string"
  err_data :: "nat \<Rightarrow> string"
  drain_error :: "nat \<Rightarrow> py_exception option"
  spawn_error :: "py_exception option"
  write_error :: "py_exception option"
  close_error :: "py_exception option"
  next_pid :: int
  child :: "popen option"
  stdin_buf :: "string option"
  stdin_closed :: bool
  drain_broken :: bool
  sigkills :: nat
  waits :: nat
  log_file :: "log_record list"
  trace :: "event list"

definition observe :: "event \<Rightarrow> world \<Rightarrow> world" where
  "observe e w = w\<lparr>tick := Suc (tick w), trace := trace w @ [e]\<rparr>"

definition stored :: "attr \<Rightarrow> world \<Rightarrow> world" where
  "stored a w = w\<lparr>trace := trace w @ [Ev_store a]\<rparr>"

definition time_time :: "world \<Rightarrow> real \<times> world" where
  "time_time w = (clock w (tick w), observe Ev_time w)"

text \<open>
  \<open>Popen(args=..., stdin=i, stdout=..., stderr=..., cwd=..., env=...)\<close>. A new child has an
  open stdin pipe with nothing written to it, and no drain of it has failed.
\<close>

definition Popen ::
  "string list \<Rightarrow> pyval \<Rightarrow> pyval \<Rightarrow> pyval \<Rightarrow> string \<Rightarrow> (string \<times> string) list option
    \<Rightarrow> world \<Rightarrow> (py_exception + popen) \<times> world" where
  "Popen argv i out err cwd env w =
     (case spawn_error w of
        Some e \<Rightarrow> (Inl e, w)
      | None \<Rightarrow>
          (let p = \<lparr>p_args = argv, p_stdin = i, p_stdout = out, p_stderr = err,
                    p_cwd = cwd, p_env = env, p_pid = next_pid w\<rparr>
           in (Inr p, w\<lparr>child := Some p, stdin_buf := None, stdin_closed := False,
                        drain_broken := False\<rparr>)))"

text \<open>
  \<open>process.stdin.write(v)\<close> on the text-mode pipe (\<open>universal_newlines=True\<close>): a value that
  is not a \<open>str\<close> raises \<open>TypeError\<close>, whose message names the type of the value; a \<open>str\<close>
  is written unless the world makes the write fail.
\<close>

definition stdin_write :: "pyval \<Rightarrow> world \<Rightarrow> py_exception option \<times> world" where
  "stdin_write v w =
     (case v of
        PStr s \<Rightarrow>
          (case write_error w of
             Some e \<Rightarrow> (Some e, w)
           | None \<Rightarrow> (None, w\<lparr>stdin_buf := Some s\<rparr>))
      | _ \<Rightarrow>
          (Some \<lparr>exc_class = ''TypeError'',
                 exc_msg = ''write() argument must be str, not '' @ py_type_name v\<rparr>, w))"

definition stdin_close :: "world \<Rightarrow> py_exception option \<times> world" where
  "stdin_close w =
     (case close_error w of
        Some e \<Rightarrow> (Some e, w)
      | None \<Rightarrow> (None, w\<lparr>stdin_closed := True\<rparr>))"

text \<open>\<open>process.stdin.write(v)\<close>, then \<open>process.stdin.close()\<close> unless the write raised.\<close>

definition write_payload :: "pyval \<Rightarrow> world \<Rightarrow> py_exception option \<times> world" where
  "write_payload v w =
     (case stdin_write v w of
        (Some e, w1) \<Rightarrow> (Some e, w1)
      | (None, w1) \<Rightarrow> stdin_close w1)"

definition Popen_poll :: "world \<Rightarrow> int option \<times> world" where
  "Popen_poll w = (exit_status w (tick w), observe Ev_poll w)"

definition Popen_kill :: "world \<Rightarrow> world" where
  "Popen_kill w = observe Ev_kill (w\<lparr>sigkills := Suc (sigkills w)\<rparr>)"

definition Popen_wait :: "world \<Rightarrow> world" where
  "Popen_wait w = observe Ev_wait (w\<lparr>waits := Suc (waits w)\<rparr>)"

text \<open>
  \<open>communicate()\<close> reads the child's piped output to its end and returns a pair; a component
  is the text read when that stream was opened with \<open>PIPE\<close>, and \<open>None\<close> otherwise. With no
  piped output there is nothing to read and the call does not raise. With piped output the
  call flushes the child's stdin pipe before it reads, which raises \<open>ValueError\<close> when the
  constructor has closed that pipe already (only \<open>BrokenPipeError\<close> is caught there); the
  handle is then left without its buffers, and every later call raises \<open>AttributeError\<close>.
  In all other cases the world says whether the call raises.
\<close>

definition communicate_error :: "popen \<Rightarrow> world \<Rightarrow> py_exception option" where
  "communicate_error p w =
     (if p_stdout p = PIPE \<or> p_stderr p = PIPE
      then (if drain_broken w
            then Some \<lparr>exc_class = ''AttributeError'',
                       exc_msg = [CHR 0x27] @ ''Popen'' @ [CHR 0x27]
                         @ '' object has no attribute ''
                         @ [CHR 0x27] @ ''_fileobj2output'' @ [CHR 0x27]\<rparr>
            else if p_stdin p = PIPE \<and> stdin_closed w
            then Some \<lparr>exc_class = ''ValueError'', exc_msg = ''I/O operation on closed file.''\<rparr>
            else drain_error w (tick w))
      else None)"

definition Popen_communicate ::
  "popen \<Rightarrow> world \<Rightarrow> (py_exception + string option \<times> string option) \<times> world" where
  "Popen_communicate p w =
     ((case communicate_error p w of
         Some e \<Rightarrow> Inl e
       | None \<Rightarrow>
           Inr ((if p_stdout p = PIPE then Some (out_data w (tick w)) else None),
                (if p_stderr p = PIPE then Some (err_data w (tick w)) else None))),
      observe Ev_communicate
        (w\<lparr>drain_broken :=
             drain_broken w \<or>
             ((p_stdout p = PIPE \<or> p_stderr p = PIPE) \<and> p_stdin p = PIPE \<and> stdin_closed w)\<rparr>))"


section \<open>\<open>BashError\<close> and the class \<open>Bash\<close>\<close>

datatype bash_error = BashError (err_args: "string list") (err_cmd: string) (err_msg: string)

record bash =
  args :: "string list"
  cmd :: string
  process :: popen
  stdin :: string
  stdout :: "string option"
  stderr :: "string option"
  code :: "int option"
  e_codes :: "int list"
  pid :: int
  s_time :: real
  e_time :: "real option"
  m_time :: int
  status :: status

text \<open>The keyword arguments of \<open>Bash(...)\<close> and of \<open>run(...)\<close>, and their defaults.\<close>

record init_args =
  a_cmd :: string
  a_args :: "string list"
  a_stdin :: pyval
  a_stdout :: pyval
  a_stderr :: pyval
  a_cwd :: string
  a_env :: "(string \<times> string) list option"
  a_m_time :: "int option"
  a_e_codes :: "int list"

definition defaults :: "string \<Rightarrow> init_args" where
  "defaults c =
     \<lparr>a_cmd = c, a_args = D_ARGS, a_stdin = PNone, a_stdout = PNone, a_stderr = PNone,
      a_cwd = D_CWD, a_env = None, a_m_time = Some D_MAX_TIME, a_e_codes = D_E_CODES\<rparr>"

text \<open>
  \<open>Bash.__init__\<close>. The \<open>try\<close> block covers \<open>Popen(...)\<close>, the write and the close; whatever
  is raised there becomes \<open>BashError(self.args, self.cmd, str(e))\<close>.
\<close>

definition Bash_init :: "init_args \<Rightarrow> world \<Rightarrow> (bash_error + bash) \<times> world" where
  "Bash_init a w =
     (let self_args = [BASH] @ a_args a @ [''-c''];
          self_cmd = a_cmd a;
          literal = (a_stdin a \<notin> set [PNone, PIPE, DEVNULL]);
          i = (if literal then PIPE else a_stdin a)
      in case Popen (self_args @ [self_cmd]) i (a_stdout a) (a_stderr a) (a_cwd a) (a_env a) w of
           (Inl e, w1) \<Rightarrow> (Inl (BashError self_args self_cmd (exc_msg e)), w1)
         | (Inr p, w1) \<Rightarrow>
             (case (if literal then write_payload (a_stdin a) w1 else (None, w1)) of
                (Some e, w3) \<Rightarrow> (Inl (BashError self_args self_cmd (exc_msg e)), w3)
              | (None, w3) \<Rightarrow>
                  (case time_time w3 of
                     (now, w4) \<Rightarrow>
                       (Inr \<lparr>args = self_args, cmd = self_cmd, process = p,
                             stdin = '''', stdout = Some '''', stderr = Some '''',
                             code = None, e_codes = a_e_codes a, pid = p_pid p,
                             s_time = now, e_time = None,
                             m_time = (case a_m_time a of Some m \<Rightarrow> m | None \<Rightarrow> L_MAX_TIME),
                             status = S_RUN\<rparr>, w4))))"

text \<open>
  The statements of the methods, each acting on the instance and the world. A statement
  that raises leaves both as they are at that point, so what was stored before stays
  stored.
\<close>

fun set_code :: "int \<Rightarrow> bash \<times> world \<Rightarrow> bash \<times> world" where
  "set_code c (self, w) = (self\<lparr>code := Some c\<rparr>, stored A_code w)"

fun set_status :: "status \<Rightarrow> bash \<times> world \<Rightarrow> bash \<times> world" where
  "set_status s (self, w) = (self\<lparr>status := s\<rparr>, stored A_status w)"

fun stamp_e_time :: "bash \<times> world \<Rightarrow> bash \<times> world" where
  "stamp_e_time (self, w) =
     (case time_time w of (now, w1) \<Rightarrow> (self\<lparr>e_time := Some now\<rparr>, stored A_e_time w1))"

text \<open>
  \<open>self.stdout, self.stderr = self._process.communicate()\<close>: when the call raises, neither
  attribute is stored.
\<close>

fun drain :: "bash \<times> world \<Rightarrow> py_exception option \<times> bash \<times> world" where
  "drain (self, w) =
     (case Popen_communicate (process self) w of
        (Inl e, w1) \<Rightarrow> (Some e, self, w1)
      | (Inr (out, err), w1) \<Rightarrow>
          (None, self\<lparr>stdout := out, stderr := err\<rparr>, stored A_stderr (stored A_stdout w1)))"

fun process_kill :: "bash \<times> world \<Rightarrow> bash \<times> world" where
  "process_kill (self, w) = (self, Popen_kill w)"

fun process_wait :: "bash \<times> world \<Rightarrow> bash \<times> world" where
  "process_wait (self, w) = (self, Popen_wait w)"

text \<open>\<open>Bash._log\<close>: one record appended to the log file.\<close>

fun Bash_log :: "bash \<times> world \<Rightarrow> bash \<times> world" where
  "Bash_log (self, w) =
     (self,
      w\<lparr>log_file := log_file w @
           [\<lparr>l_cmd = cmd self, l_args = args self, l_code = code self,
             l_stdout = stdout self, l_stderr = stderr self,
             l_s_time = s_time self, l_e_time = e_time self\<rparr>],
        trace := trace w @ [Ev_log]\<rparr>)"

text \<open>
  \<open>Bash.is_complete\<close>. It returns a truth value, or raises what \<open>communicate\<close> raised: then
  the code, the status and the end time are stored already, and neither the output nor
  the log record is written.
\<close>

definition is_complete :: "bash \<Rightarrow> world \<Rightarrow> (py_exception + bool) \<times> bash \<times> world" where
  "is_complete self w =
     (if status self \<noteq> S_RUN then (Inr True, self, w)
      else
        (case Popen_poll w of
           (rc, w1) \<Rightarrow>
             (case (case rc of
                      Some c \<Rightarrow>
                        drain (stamp_e_time (set_status S_COMPLETE (set_code c (self, w1))))
                    | None \<Rightarrow>
                        (case time_time w1 of
                           (now, w2) \<Rightarrow>
                             if now - s_time self > real_of_int (m_time self)
                             then drain (stamp_e_time (set_status S_TIMEOUT
                                    (process_wait (process_kill (self, w2)))))
                             else (None, self, w2))) of
                (Some e, st) \<Rightarrow> (Inl e, st)
              | (None, st) \<Rightarrow>
                  (let st' = (if status (fst st) \<noteq> S_RUN then Bash_log st else st)
                   in (Inr (status (fst st') \<noteq> S_RUN), st')))))"

text \<open>\<open>Bash.is_timeout\<close>: \<open>self.is_complete() and self.status == _S_TIMEOUT\<close>.\<close>

definition is_timeout :: "bash \<Rightarrow> world \<Rightarrow> (py_exception + bool) \<times> bash \<times> world" where
  "is_timeout self w =
     (case is_complete self w of
        (Inl e, st) \<Rightarrow> (Inl e, st)
      | (Inr r, self1, w1) \<Rightarrow> (Inr (r \<and> status self1 = S_TIMEOUT), self1, w1))"

text \<open>
  \<open>Bash.check_code\<close>: \<open>None if not self.is_complete() else self.code in self.e_codes\<close>.
  \<open>self.code\<close> is \<open>None\<close> or an integer, \<open>self.e_codes\<close> a list of integers.
\<close>

definition check_code :: "bash \<Rightarrow> world \<Rightarrow> (py_exception + bool option) \<times> bash \<times> world" where
  "check_code self w =
     (case is_complete self w of
        (Inl e, st) \<Rightarrow> (Inl e, st)
      | (Inr r, self1, w1) \<Rightarrow>
          (Inr (if \<not> r then None else Some (code self1 \<in> set (map Some (e_codes self1)))),
           self1, w1))"

text \<open>
  \<open>Bash.kill\<close>. It returns nothing (\<open>None\<close> here), or raises what its completion check or
  its own \<open>communicate\<close> raised; in the latter case the status has not been stored.
\<close>

definition kill :: "bash \<Rightarrow> world \<Rightarrow> py_exception option \<times> bash \<times> world" where
  "kill self w =
     (case is_complete self w of
        (Inl e, st) \<Rightarrow> (Some e, st)
      | (Inr r, self1, w1) \<Rightarrow>
          if \<not> r
          then (case drain (stamp_e_time (process_wait (process_kill (self1, w1)))) of
                  (Some e, st) \<Rightarrow> (Some e, st)
                | (None, st) \<Rightarrow> (None, set_status S_KILL st))
          else (None, self1, w1))"

text \<open>
  \<open>run\<close>: the constructor, then \<open>while process.is_complete() is False: pass\<close>. The loop
  need not end, so it is a partial function: \<open>None\<close> is the run that never returns. The
  loop ends with the instance, or with what \<open>is_complete\<close> raised.
\<close>

partial_function (option) poll_loop ::
  "bash \<Rightarrow> world \<Rightarrow> (py_exception option \<times> bash \<times> world) option" where
  "poll_loop self w =
     (case is_complete self w of
        (Inl e, st) \<Rightarrow> Some (Some e, st)
      | (Inr r, self1, w1) \<Rightarrow>
          if r = False then poll_loop self1 w1 else Some (None, self1, w1))"

text \<open>How a call of \<open>run\<close> ends when it ends.\<close>

datatype run_result = Raised_BashError bash_error | Raised py_exception | Returned bash

definition run :: "init_args \<Rightarrow> world \<Rightarrow> (run_result \<times> world) option" where
  "run a w =
     (case Bash_init a w of
        (Inl e, w1) \<Rightarrow> Some (Raised_BashError e, w1)
      | (Inr p, w1) \<Rightarrow>
          (case poll_loop p w1 of
             None \<Rightarrow> None
           | Some (Some e, p1, w2) \<Rightarrow> Some (Raised e, w2)
           | Some (None, p1, w2) \<Rightarrow> Some (Returned p1, w2)))"

text \<open>
  A caller: any sequence of method calls on one instance, going on after a call that
  raised (the instance is then as the call left it).
\<close>

datatype call = Call_is_complete | Call_is_timeout | Call_check_code | Call_kill

fun do_call :: "call \<Rightarrow> bash \<times> world \<Rightarrow> bash \<times> world" where
  "do_call Call_is_complete (self, w) = snd (is_complete self w)"
| "do_call Call_is_timeout (self, w) = snd (is_timeout self w)"
| "do_call Call_check_code (self, w) = snd (check_code self w)"
| "do_call Call_kill (self, w) = snd (kill self w)"

definition do_calls :: "call list \<Rightarrow> bash \<times> world \<Rightarrow> bash \<times> world" where
  "do_calls cs st = fold do_call cs st"

text \<open>Whether a call returns rather than raises, and whether every call of a sequence does.\<close>

fun returns :: "call \<Rightarrow> bash \<times> world \<Rightarrow> bool" where
  "returns Call_is_complete (self, w) =
     (case fst (is_complete self w) of Inl e \<Rightarrow> False | Inr r \<Rightarrow> True)"
| "returns Call_is_timeout (self, w) =
     (case fst (is_timeout self w) of Inl e \<Rightarrow> False | Inr r \<Rightarrow> True)"
| "returns Call_check_code (self, w) =
     (case fst (check_code self w) of Inl e \<Rightarrow> False | Inr r \<Rightarrow> True)"
| "returns Call_kill (self, w) = (fst (kill self w) = None)"

fun all_return :: "call list \<Rightarrow> bash \<times> world \<Rightarrow> bool" where
  "all_return [] st = True"
| "all_return (c # cs) st = (returns c st \<and> all_return cs (do_call c st))"


text \<open>The attribute stores of a trace, in order.\<close>

fun stores :: "event list \<Rightarrow> attr list" where
  "stores [] = []"
| "stores (Ev_store a # es) = a # stores es"
| "stores (e # es) = stores es"

text \<open>What a call added to the trace: the events of \<open>w'\<close> after those of \<open>w\<close>.\<close>

definition new_events :: "world \<Rightarrow> world \<Rightarrow> event list" where
  "new_events w w' = drop (length (trace w)) (trace w')"


text \<open>How often a trace stores an attribute.\<close>

definition n_stores :: "attr \<Rightarrow> world \<Rightarrow> nat" where
  "n_stores a w = count_list (trace w) (Ev_store a)"


section \<open>Concrete worlds and instances\<close>

text \<open>
  \<open>still_world\<close>: the clock advances one second per observation and the child never exits.
  \<open>exited_world\<close>: the child has exited with code 0 and left \<open>hi\<close> on its stdout.
\<close>

definition still_world :: world where
  "still_world =
     \<lparr>tick = 0, clock = (\<lambda>t. real t), exit_status = (\<lambda>t. None),
      out_data = (\<lambda>t. ''''), err_data = (\<lambda>t. ''''), drain_error = (\<lambda>t. None),
      spawn_error = None, write_error = None, close_error = None,
      next_pid = 4242, child = None, stdin_buf = None, stdin_closed = False,
      drain_broken = False, sigkills = 0, waits = 0, log_file = [], trace = []\<rparr>"

definition exited_world :: world where
  "exited_world = still_world\<lparr>exit_status := (\<lambda>t. Some 0), out_data := (\<lambda>t. ''hi'')\<rparr>"

text \<open>\<open>refusing_world\<close>: a world where \<open>Popen\<close> raises.\<close>

definition refusing_world :: world where
  "refusing_world =
     still_world\<lparr>spawn_error := Some \<lparr>exc_class = ''FileNotFoundError'',
       exc_msg = ''No such file or directory''\<rparr>\<rparr>"

text \<open>
  What \<open>Bash(cmd=c, m_time=m)\<close> builds in these worlds: the handle, the instance and the
  world after the constructor (lemmas \<open>init_still\<close> and \<open>init_exited\<close>).
\<close>

definition popen0 :: "string \<Rightarrow> popen" where
  "popen0 c =
     \<lparr>p_args = [BASH, ''-c'', c], p_stdin = PNone, p_stdout = PNone, p_stderr = PNone,
      p_cwd = D_CWD, p_env = None, p_pid = 4242\<rparr>"

definition bash0 :: "string \<Rightarrow> int \<Rightarrow> bash" where
  "bash0 c m =
     \<lparr>args = [BASH, ''-c''], cmd = c, process = popen0 c,
      stdin = '''', stdout = Some '''', stderr = Some '''',
      code = None, e_codes = [0], pid = 4242, s_time = 0, e_time = None,
      m_time = m, status = S_RUN\<rparr>"

definition started :: "string \<Rightarrow> world \<Rightarrow> world" where
  "started c w = w\<lparr>tick := 1, child := Some (popen0 c), trace := [Ev_time]\<rparr>"


text \<open>
  What \<open>Bash('echo hi', stdout=PIPE)\<close> builds in \<open>exited_world\<close> (lemma \<open>init_piped\<close>).
\<close>

definition piped_bash :: bash where
  "piped_bash = (bash0 ''echo hi'' 60)\<lparr>process := (popen0 ''echo hi'')\<lparr>p_stdout := PIPE\<rparr>\<rparr>"

definition piped_world :: world where
  "piped_world =
     exited_world\<lparr>tick := 1, child := Some ((popen0 ''echo hi'')\<lparr>p_stdout := PIPE\<rparr>),
       trace := [Ev_time]\<rparr>"


text \<open>
  What \<open>Bash(c, stdin='hello', stdout=PIPE)\<close> builds (lemma \<open>init_fed\<close>): the constructor has
  written \<open>hello\<close> to the child's stdin pipe and closed it.
\<close>

definition fed_popen :: "string \<Rightarrow> popen" where
  "fed_popen c = (popen0 c)\<lparr>p_stdin := PIPE, p_stdout := PIPE\<rparr>"

definition fed_bash :: "string \<Rightarrow> bash" where
  "fed_bash c = (bash0 c 60)\<lparr>process := fed_popen c\<rparr>"

definition fed_world :: "string \<Rightarrow> world \<Rightarrow> world" where
  "fed_world c w =
     w\<lparr>tick := 1, child := Some (fed_popen c), stdin_buf := Some ''hello'',
       stdin_closed := True, trace := [Ev_time]\<rparr>"


section \<open>Basic facts\<close>

lemmas world_defs = Popen_poll_def time_time_def observe_def stored_def Popen_communicate_def
  Popen_kill_def Popen_wait_def

lemma init_still:
  "Bash_init ((defaults c)\<lparr>a_m_time := Some m\<rparr>) still_world
     = (Inr (bash0 c m), started c still_world)"
  by (simp add: Bash_init_def defaults_def still_world_def bash0_def popen0_def started_def
      Popen_def time_time_def observe_def PIPE_def DEVNULL_def D_ARGS_def D_E_CODES_def Let_def)

lemma init_exited:
  "Bash_init ((defaults c)\<lparr>a_m_time := Some m\<rparr>) exited_world
     = (Inr (bash0 c m), started c exited_world)"
  by (simp add: Bash_init_def defaults_def still_world_def exited_world_def bash0_def
      popen0_def started_def Popen_def time_time_def observe_def PIPE_def DEVNULL_def
      D_ARGS_def D_E_CODES_def Let_def)

lemma init_fed_still:
  "Bash_init ((defaults c)\<lparr>a_stdin := PStr ''hello'', a_stdout := PIPE\<rparr>) still_world
     = (Inr (fed_bash c), fed_world c still_world)"
  by (simp add: Bash_init_def defaults_def still_world_def bash0_def popen0_def fed_popen_def
      fed_bash_def fed_world_def Popen_def write_payload_def stdin_write_def stdin_close_def
      time_time_def observe_def PIPE_def DEVNULL_def D_ARGS_def D_E_CODES_def D_MAX_TIME_def
      Let_def)

lemma init_fed_exited:
  "Bash_init ((defaults c)\<lparr>a_stdin := PStr ''hello'', a_stdout := PIPE\<rparr>) exited_world
     = (Inr (fed_bash c), fed_world c exited_world)"
  by (simp add: Bash_init_def defaults_def still_world_def exited_world_def bash0_def popen0_def
      fed_popen_def fed_bash_def fed_world_def Popen_def write_payload_def stdin_write_def
      stdin_close_def time_time_def observe_def PIPE_def DEVNULL_def D_ARGS_def D_E_CODES_def
      D_MAX_TIME_def Let_def)

lemma case_outcome:
  "(case d of (Some e, st) \<Rightarrow> f e st | (None, st) \<Rightarrow> g st)
     = (case fst d of Some e \<Rightarrow> f e (snd d) | None \<Rightarrow> g (snd d))"
  by (cases d; cases "fst d") auto

text \<open>Components of the statements.\<close>

lemma drain_raises [simp]:
  "fst (drain st) = communicate_error (process (fst st)) (snd st)"
  by (cases st) (simp add: Popen_communicate_def split: option.splits)

lemma status_steps [simp]:
  "status (fst (set_status s st)) = s"
  "status (fst (set_code c st)) = status (fst st)"
  "status (fst (stamp_e_time st)) = status (fst st)"
  "status (fst (snd (drain st))) = status (fst st)"
  "status (fst (process_kill st)) = status (fst st)"
  "status (fst (process_wait st)) = status (fst st)"
  "status (fst (Bash_log st)) = status (fst st)"
  by (cases st; simp add: time_time_def Popen_communicate_def split: prod.splits option.splits)+

lemma e_time_steps [simp]:
  "e_time (fst (set_status s st)) = e_time (fst st)"
  "e_time (fst (stamp_e_time st)) = Some (clock (snd st) (tick (snd st)))"
  "e_time (fst (snd (drain st))) = e_time (fst st)"
  "e_time (fst (Bash_log st)) = e_time (fst st)"
  by (cases st; simp add: time_time_def Popen_communicate_def split: prod.splits option.splits)+

lemma process_steps [simp]:
  "process (fst (set_status s st)) = process (fst st)"
  "process (fst (set_code c st)) = process (fst st)"
  "process (fst (stamp_e_time st)) = process (fst st)"
  "process (fst (snd (drain st))) = process (fst st)"
  "process (fst (process_kill st)) = process (fst st)"
  "process (fst (process_wait st)) = process (fst st)"
  "process (fst (Bash_log st)) = process (fst st)"
  by (cases st; simp add: time_time_def Popen_communicate_def split: prod.splits option.splits)+

lemma stdout_steps [simp]:
  "stdout (fst (set_status s st)) = stdout (fst st)"
  "stdout (fst (set_code c st)) = stdout (fst st)"
  "stdout (fst (stamp_e_time st)) = stdout (fst st)"
  "stdout (fst (snd (drain st))) =
     (if communicate_error (process (fst st)) (snd st) \<noteq> None then stdout (fst st)
      else if p_stdout (process (fst st)) = PIPE then Some (out_data (snd st) (tick (snd st)))
      else None)"
  "stdout (fst (process_kill st)) = stdout (fst st)"
  "stdout (fst (process_wait st)) = stdout (fst st)"
  "stdout (fst (Bash_log st)) = stdout (fst st)"
  by (cases st; simp add: time_time_def Popen_communicate_def split: prod.splits option.splits)+

lemma stderr_steps [simp]:
  "stderr (fst (set_status s st)) = stderr (fst st)"
  "stderr (fst (set_code c st)) = stderr (fst st)"
  "stderr (fst (stamp_e_time st)) = stderr (fst st)"
  "stderr (fst (snd (drain st))) =
     (if communicate_error (process (fst st)) (snd st) \<noteq> None then stderr (fst st)
      else if p_stderr (process (fst st)) = PIPE then Some (err_data (snd st) (tick (snd st)))
      else None)"
  "stderr (fst (process_kill st)) = stderr (fst st)"
  "stderr (fst (process_wait st)) = stderr (fst st)"
  "stderr (fst (Bash_log st)) = stderr (fst st)"
  by (cases st; simp add: time_time_def Popen_communicate_def split: prod.splits option.splits)+

lemma trace_steps [simp]:
  "trace (snd (set_status s st)) = trace (snd st) @ [Ev_store A_status]"
  "trace (snd (set_code c st)) = trace (snd st) @ [Ev_store A_code]"
  "trace (snd (stamp_e_time st)) = trace (snd st) @ [Ev_time, Ev_store A_e_time]"
  "trace (snd (snd (drain st))) =
     trace (snd st) @
       (if communicate_error (process (fst st)) (snd st) \<noteq> None then [Ev_communicate]
        else [Ev_communicate, Ev_store A_stdout, Ev_store A_stderr])"
  "trace (snd (process_kill st)) = trace (snd st) @ [Ev_kill]"
  "trace (snd (process_wait st)) = trace (snd st) @ [Ev_wait]"
  "trace (snd (Bash_log st)) = trace (snd st) @ [Ev_log]"
  "trace (observe e w) = trace w @ [e]"
  by (cases st; simp add: world_defs split: prod.splits option.splits)+

lemma tick_steps [simp]:
  "tick (snd (set_status s st)) = tick (snd st)"
  "tick (snd (set_code c st)) = tick (snd st)"
  "tick (snd (stamp_e_time st)) = Suc (tick (snd st))"
  "tick (snd (snd (drain st))) = Suc (tick (snd st))"
  "tick (snd (process_kill st)) = Suc (tick (snd st))"
  "tick (snd (process_wait st)) = Suc (tick (snd st))"
  "tick (snd (Bash_log st)) = tick (snd st)"
  "tick (observe e w) = Suc (tick w)"
  by (cases st; simp add: world_defs split: prod.splits option.splits)+

lemma log_file_steps [simp]:
  "log_file (snd (set_status s st)) = log_file (snd st)"
  "log_file (snd (set_code c st)) = log_file (snd st)"
  "log_file (snd (stamp_e_time st)) = log_file (snd st)"
  "log_file (snd (snd (drain st))) = log_file (snd st)"
  "log_file (snd (process_kill st)) = log_file (snd st)"
  "log_file (snd (process_wait st)) = log_file (snd st)"
  "log_file (observe e w) = log_file w"
  by (cases st; simp add: world_defs split: prod.splits option.splits)+

lemma sigkills_steps [simp]:
  "sigkills (snd (set_status s st)) = sigkills (snd st)"
  "sigkills (snd (set_code c st)) = sigkills (snd st)"
  "sigkills (snd (stamp_e_time st)) = sigkills (snd st)"
  "sigkills (snd (snd (drain st))) = sigkills (snd st)"
  "sigkills (snd (process_kill st)) = Suc (sigkills (snd st))"
  "sigkills (snd (process_wait st)) = sigkills (snd st)"
  "sigkills (snd (Bash_log st)) = sigkills (snd st)"
  "sigkills (observe e w) = sigkills w"
  by (cases st; simp add: world_defs split: prod.splits option.splits)+

lemma out_data_steps [simp]:
  "out_data (snd (set_status s st)) = out_data (snd st)"
  "out_data (snd (set_code c st)) = out_data (snd st)"
  "out_data (snd (stamp_e_time st)) = out_data (snd st)"
  "out_data (snd (snd (drain st))) = out_data (snd st)"
  "out_data (snd (process_kill st)) = out_data (snd st)"
  "out_data (snd (process_wait st)) = out_data (snd st)"
  "out_data (snd (Bash_log st)) = out_data (snd st)"
  "out_data (observe e w) = out_data w"
  by (cases st; simp add: world_defs split: prod.splits option.splits)+

lemma err_data_steps [simp]:
  "err_data (snd (set_status s st)) = err_data (snd st)"
  "err_data (snd (set_code c st)) = err_data (snd st)"
  "err_data (snd (stamp_e_time st)) = err_data (snd st)"
  "err_data (snd (snd (drain st))) = err_data (snd st)"
  "err_data (snd (process_kill st)) = err_data (snd st)"
  "err_data (snd (process_wait st)) = err_data (snd st)"
  "err_data (snd (Bash_log st)) = err_data (snd st)"
  "err_data (observe e w) = err_data w"
  by (cases st; simp add: world_defs split: prod.splits option.splits)+

lemma clock_steps [simp]:
  "clock (observe e w) = clock w"
  by (simp add: observe_def)

lemma unpiped_never_raises:
  "p_stdout p \<noteq> PIPE \<Longrightarrow> p_stderr p \<noteq> PIPE \<Longrightarrow> communicate_error p w = None"
  by (simp add: communicate_error_def)

lemmas step_simps = set_code.simps set_status.simps stamp_e_time.simps drain.simps
  process_kill.simps process_wait.simps Bash_log.simps

declare step_simps [simp del]


section \<open>The branches of the completion check\<close>

lemma is_complete_terminal:
  "status self \<noteq> S_RUN \<Longrightarrow> is_complete self w = (Inr True, self, w)"
  by (simp add: is_complete_def)

lemma is_complete_exit:
  "status self = S_RUN \<Longrightarrow> exit_status w (tick w) = Some c \<Longrightarrow>
   is_complete self w =
     (case fst (drain (stamp_e_time (set_status S_COMPLETE
                  (set_code c (self, observe Ev_poll w))))) of
        Some e \<Rightarrow>
          (Inl e, snd (drain (stamp_e_time (set_status S_COMPLETE
                         (set_code c (self, observe Ev_poll w))))))
      | None \<Rightarrow>
          (Inr True, Bash_log (snd (drain (stamp_e_time (set_status S_COMPLETE
                                      (set_code c (self, observe Ev_poll w))))))))"
  by (simp add: is_complete_def Popen_poll_def Let_def case_outcome del: drain_raises
      split: option.splits)

lemma is_complete_timeout:
  "status self = S_RUN \<Longrightarrow> exit_status w (tick w) = None \<Longrightarrow>
   real_of_int (m_time self) < clock w (Suc (tick w)) - s_time self \<Longrightarrow>
   is_complete self w =
     (case fst (drain (stamp_e_time (set_status S_TIMEOUT (process_wait (process_kill
                  (self, observe Ev_time (observe Ev_poll w))))))) of
        Some e \<Rightarrow>
          (Inl e, snd (drain (stamp_e_time (set_status S_TIMEOUT (process_wait (process_kill
                         (self, observe Ev_time (observe Ev_poll w))))))))
      | None \<Rightarrow>
          (Inr True, Bash_log (snd (drain (stamp_e_time (set_status S_TIMEOUT (process_wait
                                      (process_kill
                                         (self, observe Ev_time (observe Ev_poll w))))))))))"
  by (simp add: is_complete_def Popen_poll_def time_time_def Let_def case_outcome
      del: drain_raises split: option.splits)

lemma is_complete_running:
  "status self = S_RUN \<Longrightarrow> exit_status w (tick w) = None \<Longrightarrow>
   \<not> real_of_int (m_time self) < clock w (Suc (tick w)) - s_time self \<Longrightarrow>
   is_complete self w = (Inr False, self, observe Ev_time (observe Ev_poll w))"
  by (simp add: is_complete_def Popen_poll_def time_time_def Let_def)

lemma kill_killing:
  "status self = S_RUN \<Longrightarrow> exit_status w (tick w) = None \<Longrightarrow>
   \<not> real_of_int (m_time self) < clock w (Suc (tick w)) - s_time self \<Longrightarrow>
   kill self w =
     (case fst (drain (stamp_e_time (process_wait (process_kill
                  (self, observe Ev_time (observe Ev_poll w)))))) of
        Some e \<Rightarrow>
          (Some e, snd (drain (stamp_e_time (process_wait (process_kill
                          (self, observe Ev_time (observe Ev_poll w)))))))
      | None \<Rightarrow>
          (None, set_status S_KILL (snd (drain (stamp_e_time (process_wait (process_kill
                                           (self, observe Ev_time (observe Ev_poll w)))))))))"
  by (simp add: kill_def is_complete_running case_outcome del: drain_raises)

lemma is_complete_result:
  assumes "fst (is_complete self w) = Inr r"
  shows "r = (status (fst (snd (is_complete self w))) \<noteq> S_RUN)"
proof (cases "status self = S_RUN")
  case False
  then show ?thesis using assms by (simp add: is_complete_terminal)
next
  case run: True
  show ?thesis
  proof (cases "exit_status w (tick w)")
    case (Some c)
    then show ?thesis
      using assms run by (simp add: is_complete_exit split: option.splits)
  next
    case None
    show ?thesis
    proof (cases "real_of_int (m_time self) < clock w (Suc (tick w)) - s_time self")
      case True
      then show ?thesis
        using assms run None by (simp add: is_complete_timeout split: option.splits)
    next
      case False
      then show ?thesis
        using assms run None by (simp add: is_complete_running)
    qed
  qed
qed

lemma is_complete_True:
  assumes "is_complete self w = (Inr True, self1, w1)"
  shows "status self1 \<noteq> S_RUN"
  using is_complete_result [of self w True] assms by simp

lemma do_call_terminal:
  "status self \<noteq> S_RUN \<Longrightarrow> do_call c (self, w) = (self, w)"
  by (cases c) (simp_all add: is_complete_terminal is_timeout_def check_code_def kill_def)

lemma do_calls_terminal:
  "status self \<noteq> S_RUN \<Longrightarrow> do_calls cs (self, w) = (self, w)"
  by (induction cs) (simp_all add: do_calls_def do_call_terminal)

text \<open>The concrete instances.\<close>

lemma still_running_facts:
  "status (bash0 c 60) = S_RUN"
  "exit_status (started c still_world) (tick (started c still_world)) = None"
  "\<not> real_of_int (m_time (bash0 c 60))
      < clock (started c still_world) (Suc (tick (started c still_world))) - s_time (bash0 c 60)"
  "sigkills (started c still_world) = 0"
  "log_file (started c still_world) = []"
  "trace (started c still_world) = [Ev_time]"
  "p_stdout (process (bash0 c 60)) \<noteq> PIPE"
  "p_stderr (process (bash0 c 60)) \<noteq> PIPE"
  by (simp_all add: bash0_def popen0_def started_def still_world_def PIPE_def)

lemma timeout_facts:
  "status (bash0 c 0) = S_RUN"
  "exit_status (started c still_world) (tick (started c still_world)) = None"
  "real_of_int (m_time (bash0 c 0))
      < clock (started c still_world) (Suc (tick (started c still_world))) - s_time (bash0 c 0)"
  "p_stdout (process (bash0 c 0)) \<noteq> PIPE"
  "p_stderr (process (bash0 c 0)) \<noteq> PIPE"
  by (simp_all add: bash0_def popen0_def started_def still_world_def PIPE_def)

lemma exited_facts:
  "status (bash0 c 60) = S_RUN"
  "exit_status (started c exited_world) (tick (started c exited_world)) = Some 0"
  "p_stdout (process (bash0 c 60)) \<noteq> PIPE"
  "p_stderr (process (bash0 c 60)) \<noteq> PIPE"
  by (simp_all add: bash0_def popen0_def started_def exited_world_def still_world_def PIPE_def)


section \<open>The completion check is idempotent\<close>

lemma do_calls_is_complete_terminal:
  "status self \<noteq> S_RUN \<Longrightarrow> do_calls (replicate n Call_is_complete) (self, w) = (self, w)"
  by (rule do_calls_terminal)

lemma exited_first_check:
  "fst (is_complete (bash0 ''true'' 60) (started ''true'' exited_world)) = Inr True"
  using exited_facts [of "''true''"]
  by (simp add: is_complete_exit unpiped_never_raises)

text \<open>
  Claim C6. Once a call of \<open>is_complete\<close> has returned \<open>True\<close>, every later call returns
  \<open>True\<close> at once, in whatever world it is made: the instance (status, code, end time,
  captured output) is returned as it was, and so is the world, so the child is not polled
  again and nothing is appended to the log. The same holds for any number of calls in a
  row.
\<close>

theorem C6_is_complete_idempotent:
  assumes "is_complete self w = (Inr True, self', w')"
  shows "(\<forall>w''. is_complete self' w'' = (Inr True, self', w'')) \<and>
         (\<forall>n. do_calls (replicate n Call_is_complete) (self', w') = (self', w'))"
proof -
  have "status self' \<noteq> S_RUN"
    using assms by (rule is_complete_True)
  then show ?thesis
    by (simp add: is_complete_terminal do_calls_is_complete_terminal)
qed

theorem C6_is_complete_idempotent_witness:
  "fst (is_complete (bash0 ''true'' 60) (started ''true'' exited_world)) = Inr True \<and>
   is_complete (fst (snd (is_complete (bash0 ''true'' 60) (started ''true'' exited_world))))
       still_world
     = (Inr True, fst (snd (is_complete (bash0 ''true'' 60) (started ''true'' exited_world))),
        still_world)"
proof -
  let ?r = "is_complete (bash0 ''true'' 60) (started ''true'' exited_world)"
  have h: "?r = (Inr True, fst (snd ?r), snd (snd ?r))"
    using exited_first_check by (simp add: prod_eq_iff)
  show ?thesis
    using C6_is_complete_idempotent [OF h] exited_first_check by simp
qed


section \<open>Killing\<close>


lemma kill_still:
  "kill (bash0 c 60) (started c still_world) =
     (None, set_status S_KILL (snd (drain (stamp_e_time (process_wait (process_kill
        (bash0 c 60, observe Ev_time (observe Ev_poll (started c still_world)))))))))"
  using still_running_facts [of c]
  by (simp add: kill_killing unpiped_never_raises)




section \<open>Logging\<close>

text \<open>
  Claim C3, at \<open>Bash('sleep 100')\<close> with a child that keeps running: \<open>kill\<close> returns, the
  instance is in \<open>S_KILL\<close> and the log file stays empty, also after further calls of every
  method. The transition into the killed state is never logged.
\<close>

theorem C3_killed_not_logged:
  "Bash_init (defaults ''sleep 100'') still_world
     = (Inr (bash0 ''sleep 100'' 60), started ''sleep 100'' still_world) \<and>
   fst (kill (bash0 ''sleep 100'' 60) (started ''sleep 100'' still_world)) = None \<and>
   status (fst (snd (kill (bash0 ''sleep 100'' 60) (started ''sleep 100'' still_world))))
     = S_KILL \<and>
   log_file (snd (snd (kill (bash0 ''sleep 100'' 60) (started ''sleep 100'' still_world))))
     = [] \<and>
   log_file (snd (do_calls [Call_kill, Call_is_complete, Call_is_timeout, Call_check_code]
     (bash0 ''sleep 100'' 60, started ''sleep 100'' still_world))) = []"
proof -
  let ?b = "bash0 ''sleep 100'' 60" and ?w = "started ''sleep 100'' still_world"
  have "defaults ''sleep 100'' = (defaults ''sleep 100'')\<lparr>a_m_time := Some 60\<rparr>"
    by (simp add: defaults_def D_MAX_TIME_def)
  then have init: "Bash_init (defaults ''sleep 100'') still_world = (Inr ?b, ?w)"
    using init_still [where c = "''sleep 100''" and m = 60] by simp
  note k = kill_still [of "''sleep 100''"]
  have ret: "fst (kill ?b ?w) = None"
    by (simp add: k)
  have st: "status (fst (snd (kill ?b ?w))) = S_KILL"
    by (simp add: k)
  have lg: "log_file (snd (snd (kill ?b ?w))) = []"
    using still_running_facts(5) [of "''sleep 100''"] by (simp add: k)
  have "do_calls [Call_kill, Call_is_complete, Call_is_timeout, Call_check_code] (?b, ?w)
      = do_calls [Call_is_complete, Call_is_timeout, Call_check_code] (snd (kill ?b ?w))"
    by (simp add: do_calls_def)
  also have "\<dots> = snd (kill ?b ?w)"
    using do_calls_terminal [of "fst (snd (kill ?b ?w))" _ "snd (snd (kill ?b ?w))"] st
    by simp
  finally show ?thesis
    using init ret st lg by simp
qed


section \<open>The order of the stores\<close>

text \<open>
  Claim C4, as the code has it. When \<open>is_complete\<close> returns on a running instance, it has
  stored the status before the end time and the end time before the output (after the
  exit code, in the exit branch), or nothing when the instance stays running. When \<open>kill\<close>
  returns, it has stored as \<open>is_complete\<close> does if its completion check made the
  transition; if it killed the child itself it has stored the end time, then the output,
  and the status last. A call that returns with a terminal status has set the end time.
\<close>

theorem C4_store_order:
  assumes "status self = S_RUN"
  shows
    "((\<exists>r. fst (is_complete self w) = Inr r) \<longrightarrow>
        stores (new_events w (snd (snd (is_complete self w)))) =
          (if exit_status w (tick w) \<noteq> None
           then [A_code, A_status, A_e_time, A_stdout, A_stderr]
           else if real_of_int (m_time self) < clock w (Suc (tick w)) - s_time self
                then [A_status, A_e_time, A_stdout, A_stderr]
                else [])) \<and>
     (fst (is_complete self w) = Inr True \<longrightarrow>
        e_time (fst (snd (is_complete self w))) \<noteq> None) \<and>
     (fst (kill self w) = None \<longrightarrow>
        stores (new_events w (snd (snd (kill self w)))) =
          (if exit_status w (tick w) \<noteq> None
           then [A_code, A_status, A_e_time, A_stdout, A_stderr]
           else if real_of_int (m_time self) < clock w (Suc (tick w)) - s_time self
                then [A_status, A_e_time, A_stdout, A_stderr]
                else [A_e_time, A_stdout, A_stderr, A_status]) \<and>
        status (fst (snd (kill self w))) \<noteq> S_RUN \<and>
        e_time (fst (snd (kill self w))) \<noteq> None)"
proof (cases "exit_status w (tick w)")
  case (Some c)
  then show ?thesis
    using assms
    by (simp add: kill_def is_complete_exit new_events_def split: option.splits)
next
  case None
  show ?thesis
  proof (cases "real_of_int (m_time self) < clock w (Suc (tick w)) - s_time self")
    case True
    then show ?thesis
      using assms None
      by (simp add: kill_def is_complete_timeout new_events_def split: option.splits)
  next
    case False
    then show ?thesis
      using assms None
      by (simp add: kill_killing is_complete_running new_events_def split: option.splits)
  qed
qed

theorem C4_store_order_witness:
  "status (bash0 ''sleep 9'' 0) = S_RUN \<and>
   fst (is_complete (bash0 ''sleep 9'' 0) (started ''sleep 9'' still_world)) = Inr True \<and>
   stores (new_events (started ''sleep 9'' still_world)
      (snd (snd (is_complete (bash0 ''sleep 9'' 0) (started ''sleep 9'' still_world)))))
     = [A_status, A_e_time, A_stdout, A_stderr] \<and>
   e_time (fst (snd (is_complete (bash0 ''sleep 9'' 0) (started ''sleep 9'' still_world))))
     \<noteq> None \<and>
   fst (kill (bash0 ''sleep 9'' 0) (started ''sleep 9'' still_world)) = None \<and>
   stores (new_events (started ''sleep 9'' still_world)
      (snd (snd (kill (bash0 ''sleep 9'' 0) (started ''sleep 9'' still_world)))))
     = [A_status, A_e_time, A_stdout, A_stderr]"
proof -
  have r: "fst (is_complete (bash0 ''sleep 9'' 0) (started ''sleep 9'' still_world)) = Inr True"
    using timeout_facts [of "''sleep 9''"]
    by (simp add: is_complete_timeout unpiped_never_raises)
  then have k: "fst (kill (bash0 ''sleep 9'' 0) (started ''sleep 9'' still_world)) = None"
    by (cases "is_complete (bash0 ''sleep 9'' 0) (started ''sleep 9'' still_world)")
      (simp add: kill_def)
  show ?thesis
    using C4_store_order [of "bash0 ''sleep 9'' 0" "started ''sleep 9'' still_world"]
      timeout_facts [of "''sleep 9''"] r k
    by auto
qed

text \<open>
  \<open>kill\<close> on \<open>Bash('sleep 100')\<close> with a child that keeps running: the status is the
  last attribute stored, after the end time and the output.
\<close>

theorem C4_store_order_counterexample:
  "status (bash0 ''sleep 100'' 60) = S_RUN \<and>
   fst (kill (bash0 ''sleep 100'' 60) (started ''sleep 100'' still_world)) = None \<and>
   status (fst (snd (kill (bash0 ''sleep 100'' 60) (started ''sleep 100'' still_world))))
     = S_KILL \<and>
   stores (new_events (started ''sleep 100'' still_world)
      (snd (snd (kill (bash0 ''sleep 100'' 60) (started ''sleep 100'' still_world)))))
     = [A_e_time, A_stdout, A_stderr, A_status]"
  using still_running_facts [of "''sleep 100''"]
  by (simp add: kill_still new_events_def unpiped_never_raises)


section \<open>The constructor\<close>

text \<open>
  Claim C1, at \<open>Bash('true', m_time=200000)\<close> and at \<open>Bash('true', m_time=-5)\<close>: the
  constructor succeeds and stores the given value as it is, above \<open>_L_MAX_TIME\<close> in the
  first case and below zero in the second. Nothing is clamped.
\<close>

theorem C1_m_time_not_clamped:
  "Bash_init ((defaults ''true'')\<lparr>a_m_time := Some 200000\<rparr>) still_world
     = (Inr (bash0 ''true'' 200000), started ''true'' still_world) \<and>
   m_time (bash0 ''true'' 200000) = 200000 \<and>
   L_MAX_TIME = 172800 \<and>
   \<not> m_time (bash0 ''true'' 200000) \<le> L_MAX_TIME \<and>
   Bash_init ((defaults ''true'')\<lparr>a_m_time := Some (- 5)\<rparr>) still_world
     = (Inr (bash0 ''true'' (- 5)), started ''true'' still_world) \<and>
   m_time (bash0 ''true'' (- 5)) = - 5 \<and>
   \<not> 0 \<le> m_time (bash0 ''true'' (- 5))"
  using init_still [where c = "''true''" and m = 200000]
    init_still [where c = "''true''" and m = "- 5"]
  by (simp add: bash0_def L_MAX_TIME_def)

lemma write_payload_error:
  "fst (write_payload v w) =
     (case v of
        PStr s \<Rightarrow> (case write_error w of Some e \<Rightarrow> Some e | None \<Rightarrow> close_error w)
      | _ \<Rightarrow> Some \<lparr>exc_class = ''TypeError'',
                   exc_msg = ''write() argument must be str, not '' @ py_type_name v\<rparr>)"
  by (simp add: write_payload_def stdin_write_def stdin_close_def
      split: pyval.splits option.splits)

lemma write_payload_spawned:
  "fst (write_payload v (w\<lparr>child := x, stdin_buf := y, stdin_closed := z,
          drain_broken := n\<rparr>))
     = fst (write_payload v w)"
  by (simp add: write_payload_error split: pyval.splits option.splits)

text \<open>
  Claim C8. When \<open>Popen\<close> raises, and when the write of a literal stdin or the close after
  it raises, the constructor raises \<open>BashError\<close> with \<open>self.args\<close>, \<open>self.cmd\<close> and the
  message of what was raised. In every other case it returns an instance that is running,
  with the pid of the child and the clock's reading as start time, and with neither code
  nor end time. The three cases cover every argument and every world, so the constructor
  raises nothing else.
\<close>

theorem C8_constructor:
  "(\<forall>e. spawn_error w = Some e \<longrightarrow>
      fst (Bash_init a w) =
        Inl (BashError ([BASH] @ a_args a @ [''-c'']) (a_cmd a) (exc_msg e))) \<and>
   (\<forall>e. spawn_error w = None \<and> a_stdin a \<notin> {PNone, PIPE, DEVNULL}
        \<and> fst (write_payload (a_stdin a) w) = Some e \<longrightarrow>
      fst (Bash_init a w) =
        Inl (BashError ([BASH] @ a_args a @ [''-c'']) (a_cmd a) (exc_msg e))) \<and>
   (spawn_error w = None
      \<and> (a_stdin a \<in> {PNone, PIPE, DEVNULL} \<or> fst (write_payload (a_stdin a) w) = None) \<longrightarrow>
      (\<exists>b. fst (Bash_init a w) = Inr b \<and> status b = S_RUN \<and> pid b = next_pid w
           \<and> s_time b = clock w (tick w) \<and> code b = None \<and> e_time b = None))"
proof (cases "spawn_error w")
  case (Some e)
  then show ?thesis
    by (simp add: Bash_init_def Popen_def Let_def)
next
  case None
  show ?thesis
  proof (cases "a_stdin a \<in> {PNone, PIPE, DEVNULL}")
    case True
    then show ?thesis
      using None
      by (auto simp: Bash_init_def Popen_def Let_def time_time_def observe_def)
  next
    case False
    let ?p = "\<lparr>p_args = [BASH] @ a_args a @ [''-c''] @ [a_cmd a], p_stdin = PIPE,
                p_stdout = a_stdout a, p_stderr = a_stderr a, p_cwd = a_cwd a,
                p_env = a_env a, p_pid = next_pid w\<rparr>"
    let ?w = "w\<lparr>child := Some ?p, stdin_buf := None, stdin_closed := False,
                drain_broken := False\<rparr>"
    obtain r w2 where wp: "write_payload (a_stdin a) ?w = (r, w2)"
      by (cases "write_payload (a_stdin a) ?w") auto
    have r: "fst (write_payload (a_stdin a) w) = r"
      using write_payload_spawned [where v = "a_stdin a" and w = w and x = "Some ?p"
          and y = None and z = False and n = False] wp
      by simp
    have frame: "next_pid w2 = next_pid w \<and> clock w2 = clock w \<and> tick w2 = tick w"
      using wp
      by (auto simp: write_payload_def stdin_write_def stdin_close_def
          split: pyval.splits option.splits)
    show ?thesis
    proof (cases r)
      case (Some e)
      then show ?thesis
        using None False wp r
        by (simp add: Bash_init_def Popen_def Let_def)
    next
      case rn: None
      then show ?thesis
        using None False wp r frame
        by (simp add: Bash_init_def Popen_def Let_def time_time_def observe_def)
    qed
  qed
qed

theorem C8_constructor_witness:
  "spawn_error refusing_world
     = Some \<lparr>exc_class = ''FileNotFoundError'', exc_msg = ''No such file or directory''\<rparr> \<and>
   fst (Bash_init (defaults ''true'') refusing_world)
     = Inl (BashError [''/usr/bin/bash'', ''-c''] ''true'' ''No such file or directory'') \<and>
   spawn_error still_world = None \<and>
   a_stdin ((defaults ''cat'')\<lparr>a_stdin := PStr ''hello''\<rparr>) \<notin> {PNone, PIPE, DEVNULL} \<and>
   fst (write_payload (PStr ''hello'') still_world) = None \<and>
   (\<exists>b. fst (Bash_init ((defaults ''cat'')\<lparr>a_stdin := PStr ''hello''\<rparr>) still_world) = Inr b
      \<and> status b = S_RUN \<and> pid b = 4242 \<and> s_time b = 0 \<and> code b = None \<and> e_time b = None) \<and>
   a_stdin ((defaults ''cat'')\<lparr>a_stdin := PObj ''bytes'' 7\<rparr>) \<notin> {PNone, PIPE, DEVNULL} \<and>
   fst (write_payload (PObj ''bytes'' 7) still_world)
     = Some \<lparr>exc_class = ''TypeError'',
             exc_msg = ''write() argument must be str, not bytes''\<rparr> \<and>
   fst (Bash_init ((defaults ''cat'')\<lparr>a_stdin := PObj ''bytes'' 7\<rparr>) still_world)
     = Inl (BashError [''/usr/bin/bash'', ''-c''] ''cat''
              ''write() argument must be str, not bytes'')"
proof -
  have 1: "spawn_error refusing_world
     = Some \<lparr>exc_class = ''FileNotFoundError'', exc_msg = ''No such file or directory''\<rparr>"
    by (simp add: refusing_world_def still_world_def)
  have 2: "spawn_error still_world = None \<and> next_pid still_world = 4242
      \<and> clock still_world (tick still_world) = 0"
    by (simp add: still_world_def)
  have 3: "fst (write_payload (PStr ''hello'') still_world) = None"
    by (simp add: write_payload_error still_world_def)
  have 4: "fst (write_payload (PObj ''bytes'' 7) still_world)
     = Some \<lparr>exc_class = ''TypeError'',
             exc_msg = ''write() argument must be str, not bytes''\<rparr>"
    by (simp add: write_payload_error)
  have 5: "PStr ''hello'' \<notin> {PNone, PIPE, DEVNULL} \<and> PObj ''bytes'' 7 \<notin> {PNone, PIPE, DEVNULL}"
    by (simp add: PIPE_def DEVNULL_def)
  show ?thesis
    using C8_constructor [where w = refusing_world and a = "defaults ''true''"]
      C8_constructor [where w = still_world
        and a = "(defaults ''cat'')\<lparr>a_stdin := PStr ''hello''\<rparr>"]
      C8_constructor [where w = still_world
        and a = "(defaults ''cat'')\<lparr>a_stdin := PObj ''bytes'' 7\<rparr>"]
      1 2 3 4 5
    by (simp add: defaults_def BASH_def D_ARGS_def)
qed

text \<open>
  Claim C10. A stdin argument other than \<open>None\<close>, \<open>PIPE\<close> and \<open>DEVNULL\<close> makes the constructor
  open the child's stdin as a pipe. A text is then written to it and the pipe is closed.
  Anything that is not a text (\<open>STDOUT\<close> is such a value) makes the write raise after the
  child has been spawned, and the constructor raises \<open>BashError\<close> with the message of that
  failure, having written nothing and closed nothing.
\<close>

theorem C10_stdin_literal:
  assumes "a_stdin a \<notin> {PNone, PIPE, DEVNULL}" and "spawn_error w = None"
  shows
    "(\<exists>p. child (snd (Bash_init a w)) = Some p \<and> p_stdin p = PIPE) \<and>
     (\<forall>s. a_stdin a = PStr s \<and> write_error w = None \<and> close_error w = None \<longrightarrow>
        stdin_buf (snd (Bash_init a w)) = Some s \<and> stdin_closed (snd (Bash_init a w))
        \<and> (\<exists>b. fst (Bash_init a w) = Inr b)) \<and>
     ((\<forall>s. a_stdin a \<noteq> PStr s) \<longrightarrow>
        fst (Bash_init a w) =
          Inl (BashError ([BASH] @ a_args a @ [''-c'']) (a_cmd a)
                 (''write() argument must be str, not '' @ py_type_name (a_stdin a)))
        \<and> stdin_buf (snd (Bash_init a w)) = None
        \<and> \<not> stdin_closed (snd (Bash_init a w))) \<and>
     STDOUT \<notin> {PNone, PIPE, DEVNULL}"
proof (cases "a_stdin a")
  case (PStr s)
  then show ?thesis
    using assms
    by (auto simp: Bash_init_def Popen_def Let_def write_payload_def stdin_write_def
        stdin_close_def time_time_def observe_def STDOUT_def PIPE_def DEVNULL_def
        split: option.splits)
next
  case PNone
  then show ?thesis using assms by simp
next
  case (PInt i)
  then show ?thesis
    using assms
    by (auto simp: Bash_init_def Popen_def Let_def write_payload_def stdin_write_def
        STDOUT_def PIPE_def DEVNULL_def)
next
  case (PObj n i)
  then show ?thesis
    using assms
    by (auto simp: Bash_init_def Popen_def Let_def write_payload_def stdin_write_def
        STDOUT_def PIPE_def DEVNULL_def)
qed

theorem C10_stdin_literal_witness:
  "a_stdin ((defaults ''cat'')\<lparr>a_stdin := STDOUT\<rparr>) \<notin> {PNone, PIPE, DEVNULL} \<and>
   spawn_error still_world = None \<and>
   (\<exists>p. child (snd (Bash_init ((defaults ''cat'')\<lparr>a_stdin := STDOUT\<rparr>) still_world)) = Some p
      \<and> p_stdin p = PIPE) \<and>
   fst (Bash_init ((defaults ''cat'')\<lparr>a_stdin := STDOUT\<rparr>) still_world)
     = Inl (BashError [''/usr/bin/bash'', ''-c''] ''cat''
              ''write() argument must be str, not int'') \<and>
   a_stdin ((defaults ''cat'')\<lparr>a_stdin := PStr ''hello''\<rparr>) \<notin> {PNone, PIPE, DEVNULL} \<and>
   stdin_buf (snd (Bash_init ((defaults ''cat'')\<lparr>a_stdin := PStr ''hello''\<rparr>) still_world))
     = Some ''hello'' \<and>
   stdin_closed (snd (Bash_init ((defaults ''cat'')\<lparr>a_stdin := PStr ''hello''\<rparr>) still_world))"
proof -
  have 1: "a_stdin ((defaults ''cat'')\<lparr>a_stdin := STDOUT\<rparr>) \<notin> {PNone, PIPE, DEVNULL}"
    by (simp add: STDOUT_def PIPE_def DEVNULL_def)
  have 2: "spawn_error still_world = None \<and> write_error still_world = None
      \<and> close_error still_world = None"
    by (simp add: still_world_def)
  have 3: "a_stdin ((defaults ''cat'')\<lparr>a_stdin := PStr ''hello''\<rparr>) \<notin> {PNone, PIPE, DEVNULL}"
    by (simp add: PIPE_def DEVNULL_def)
  have 4: "\<forall>s. a_stdin ((defaults ''cat'')\<lparr>a_stdin := STDOUT\<rparr>) \<noteq> PStr s"
    by (simp add: STDOUT_def)
  show ?thesis
    using C10_stdin_literal [OF 1 conjunct1 [OF 2]] C10_stdin_literal [OF 3 conjunct1 [OF 2]]
      1 2 3 4
    by (simp add: defaults_def BASH_def D_ARGS_def STDOUT_def)
qed


section \<open>A drain that raises\<close>

text \<open>The drain of a child whose stdin the constructor has closed.\<close>

lemma fed_raises:
  "\<not> drain_broken w \<Longrightarrow> stdin_closed w \<Longrightarrow>
   communicate_error (fed_popen c) w
     = Some \<lparr>exc_class = ''ValueError'', exc_msg = ''I/O operation on closed file.''\<rparr>"
  by (simp add: communicate_error_def fed_popen_def)

lemma fed_exited_facts:
  "status (fed_bash c) = S_RUN"
  "process (fed_bash c) = fed_popen c"
  "exit_status (fed_world c exited_world) (tick (fed_world c exited_world)) = Some 0"
  "e_codes (fed_bash c) = [0]"
  "stdout (fed_bash c) = Some ''''"
  by (simp_all add: fed_bash_def fed_world_def bash0_def exited_world_def still_world_def)

lemma world_flag_steps [simp]:
  "drain_broken (snd (set_status s st)) = drain_broken (snd st)"
  "drain_broken (snd (set_code c st)) = drain_broken (snd st)"
  "drain_broken (snd (stamp_e_time st)) = drain_broken (snd st)"
  "drain_broken (snd (process_kill st)) = drain_broken (snd st)"
  "drain_broken (snd (process_wait st)) = drain_broken (snd st)"
  "drain_broken (observe e w) = drain_broken w"
  "stdin_closed (snd (set_status s st)) = stdin_closed (snd st)"
  "stdin_closed (snd (set_code c st)) = stdin_closed (snd st)"
  "stdin_closed (snd (stamp_e_time st)) = stdin_closed (snd st)"
  "stdin_closed (snd (process_kill st)) = stdin_closed (snd st)"
  "stdin_closed (snd (process_wait st)) = stdin_closed (snd st)"
  "stdin_closed (observe e w) = stdin_closed w"
  by (cases st; simp add: step_simps world_defs split: prod.splits)+

lemma code_steps [simp]:
  "code (fst (set_status s st)) = code (fst st)"
  "code (fst (set_code c st)) = Some c"
  "code (fst (stamp_e_time st)) = code (fst st)"
  "code (fst (snd (drain st))) = code (fst st)"
  "code (fst (Bash_log st)) = code (fst st)"
  "e_codes (fst (set_status s st)) = e_codes (fst st)"
  "e_codes (fst (set_code c st)) = e_codes (fst st)"
  "e_codes (fst (stamp_e_time st)) = e_codes (fst st)"
  "e_codes (fst (snd (drain st))) = e_codes (fst st)"
  "e_codes (fst (Bash_log st)) = e_codes (fst st)"
  by (cases st; simp add: step_simps time_time_def Popen_communicate_def
      split: prod.splits option.splits)+

lemma fed_is_complete:
  "is_complete (fed_bash c) (fed_world c exited_world) =
     (Inl \<lparr>exc_class = ''ValueError'', exc_msg = ''I/O operation on closed file.''\<rparr>,
      snd (drain (stamp_e_time (set_status S_COMPLETE
        (set_code 0 (fed_bash c, observe Ev_poll (fed_world c exited_world)))))))"
proof -
  have "communicate_error (fed_popen c)
      (snd (stamp_e_time (set_status S_COMPLETE
        (set_code 0 (fed_bash c, observe Ev_poll (fed_world c exited_world))))))
     = Some \<lparr>exc_class = ''ValueError'', exc_msg = ''I/O operation on closed file.''\<rparr>"
    by (rule fed_raises) (simp_all add: fed_world_def exited_world_def still_world_def)
  then show ?thesis
    using fed_exited_facts [of c] by (simp add: is_complete_exit)
qed

lemma fed_kill_raises:
  "Bash_init ((defaults c)\<lparr>a_stdin := PStr ''hello'', a_stdout := PIPE\<rparr>) still_world
     = (Inr (fed_bash c), fed_world c still_world) \<and>
   fst (kill (fed_bash c) (fed_world c still_world))
     = Some \<lparr>exc_class = ''ValueError'', exc_msg = ''I/O operation on closed file.''\<rparr> \<and>
   status (fst (snd (kill (fed_bash c) (fed_world c still_world)))) = S_RUN \<and>
   stdout (fst (snd (kill (fed_bash c) (fed_world c still_world)))) = Some ''''"
proof -
  let ?X = "stamp_e_time (process_wait (process_kill
        (fed_bash c, observe Ev_time (observe Ev_poll (fed_world c still_world)))))"
  have f: "status (fed_bash c) = S_RUN" "process (fed_bash c) = fed_popen c"
    "stdout (fed_bash c) = Some ''''"
    "exit_status (fed_world c still_world) (tick (fed_world c still_world)) = None"
    "\<not> real_of_int (m_time (fed_bash c))
        < clock (fed_world c still_world) (Suc (tick (fed_world c still_world)))
          - s_time (fed_bash c)"
    by (simp_all add: fed_bash_def fed_world_def bash0_def still_world_def)
  have e: "communicate_error (fed_popen c) (snd ?X)
     = Some \<lparr>exc_class = ''ValueError'', exc_msg = ''I/O operation on closed file.''\<rparr>"
    by (rule fed_raises) (simp_all add: fed_world_def still_world_def)
  show ?thesis
    using init_fed_still [of c] f e by (simp add: kill_killing)
qed

text \<open>What \<open>check_code\<close> returns when it returns.\<close>

lemma check_code_returned:
  assumes "fst (check_code self w) = Inr r"
  shows "(r = None \<longleftrightarrow> status (fst (snd (check_code self w))) = S_RUN) \<and>
    (status (fst (snd (check_code self w))) \<noteq> S_RUN \<longrightarrow>
       r = Some (\<exists>c. code (fst (snd (check_code self w))) = Some c
                    \<and> c \<in> set (e_codes (fst (snd (check_code self w))))))"
proof -
  obtain x b1 w1 where ic: "is_complete self w = (x, b1, w1)"
    by (cases "is_complete self w") auto
  show ?thesis
  proof (cases x)
    case (Inl e)
    then show ?thesis using assms ic by (simp add: check_code_def)
  next
    case (Inr t)
    have "t = (status b1 \<noteq> S_RUN)"
      using is_complete_result [of self w t] ic Inr by simp
    then show ?thesis
      using assms ic Inr by (auto simp: check_code_def)
  qed
qed

text \<open>
  Claim C7, at \<open>Bash('cat', stdin='hello', stdout=PIPE)\<close> with the child exited. The first
  \<open>check_code\<close> raises \<open>ValueError\<close>, from the drain of a child whose stdin the constructor
  has closed: it returns neither \<open>None\<close> nor a truth value, although the instance is
  completed by then, with code 0 and nothing captured. A second call returns \<open>True\<close>.
\<close>

theorem C7_check_code_raises:
  "Bash_init ((defaults ''cat'')\<lparr>a_stdin := PStr ''hello'', a_stdout := PIPE\<rparr>) exited_world
     = (Inr (fed_bash ''cat''), fed_world ''cat'' exited_world) \<and>
   fst (check_code (fed_bash ''cat'') (fed_world ''cat'' exited_world))
     = Inl \<lparr>exc_class = ''ValueError'', exc_msg = ''I/O operation on closed file.''\<rparr> \<and>
   status (fst (snd (check_code (fed_bash ''cat'') (fed_world ''cat'' exited_world))))
     = S_COMPLETE \<and>
   code (fst (snd (check_code (fed_bash ''cat'') (fed_world ''cat'' exited_world)))) = Some 0 \<and>
   stdout (fst (snd (check_code (fed_bash ''cat'') (fed_world ''cat'' exited_world))))
     = Some '''' \<and>
   fst (check_code
         (fst (snd (check_code (fed_bash ''cat'') (fed_world ''cat'' exited_world))))
         (snd (snd (check_code (fed_bash ''cat'') (fed_world ''cat'' exited_world)))))
     = Inr (Some True)"
proof -
  let ?X = "snd (drain (stamp_e_time (set_status S_COMPLETE
        (set_code 0 (fed_bash ''cat'', observe Ev_poll (fed_world ''cat'' exited_world))))))"
  have c1: "check_code (fed_bash ''cat'') (fed_world ''cat'' exited_world)
      = (Inl \<lparr>exc_class = ''ValueError'', exc_msg = ''I/O operation on closed file.''\<rparr>, ?X)"
    by (simp add: check_code_def fed_is_complete)
  have x: "status (fst ?X) = S_COMPLETE \<and> code (fst ?X) = Some 0 \<and> e_codes (fst ?X) = [0]
      \<and> stdout (fst ?X) = Some ''''"
    using fed_exited_facts [of "''cat''"]
    by (simp add: fed_raises fed_world_def exited_world_def still_world_def)
  obtain b1 w1 where X: "?X = (b1, w1)"
    by (cases ?X) auto
  have b1: "status b1 = S_COMPLETE \<and> code b1 = Some 0 \<and> e_codes b1 = [0]"
    using x unfolding X by simp
  then have "check_code b1 w1 = (Inr (Some True), b1, w1)"
    by (simp add: check_code_def is_complete_terminal)
  then have c2: "fst (check_code (fst ?X) (snd ?X)) = Inr (Some True)"
    unfolding X by simp
  show ?thesis
    using init_fed_exited [of "''cat''"] c1 c2 x by simp
qed


section \<open>The captured output\<close>

lemma n_stores_steps [simp]:
  "n_stores a (snd (set_status s st)) = n_stores a (snd st) + (if a = A_status then 1 else 0)"
  "n_stores a (snd (set_code c st)) = n_stores a (snd st) + (if a = A_code then 1 else 0)"
  "n_stores a (snd (stamp_e_time st)) = n_stores a (snd st) + (if a = A_e_time then 1 else 0)"
  "n_stores a (snd (snd (drain st))) =
     n_stores a (snd st) +
       (if communicate_error (process (fst st)) (snd st) = None \<and> a \<in> {A_stdout, A_stderr}
        then 1 else 0)"
  "n_stores a (snd (process_kill st)) = n_stores a (snd st)"
  "n_stores a (snd (process_wait st)) = n_stores a (snd st)"
  "n_stores a (snd (Bash_log st)) = n_stores a (snd st)"
  "n_stores a (observe e w) = n_stores a w + (if e = Ev_store a then 1 else 0)"
  by (auto simp: n_stores_def)

text \<open>
  One call on a running instance. The handle and the child's data stay. Either nothing is
  stored to the output attributes, or both are stored once, the instance is terminal and
  the attributes hold what \<open>communicate\<close>, the last observation of the call, returned. The
  second is the case whenever the call returns with a terminal instance.
\<close>

lemma is_complete_step:
  assumes "status self = S_RUN"
  shows
    "process (fst (snd (is_complete self w))) = process self \<and>
     out_data (snd (snd (is_complete self w))) = out_data w \<and>
     err_data (snd (snd (is_complete self w))) = err_data w \<and>
     ((n_stores A_stdout (snd (snd (is_complete self w))) = n_stores A_stdout w \<and>
       n_stores A_stderr (snd (snd (is_complete self w))) = n_stores A_stderr w \<and>
       stdout (fst (snd (is_complete self w))) = stdout self \<and>
       stderr (fst (snd (is_complete self w))) = stderr self \<and>
       (status (fst (snd (is_complete self w))) \<noteq> S_RUN \<longrightarrow>
          (\<exists>e. fst (is_complete self w) = Inl e))) \<or>
      (n_stores A_stdout (snd (snd (is_complete self w))) = Suc (n_stores A_stdout w) \<and>
       n_stores A_stderr (snd (snd (is_complete self w))) = Suc (n_stores A_stderr w) \<and>
       status (fst (snd (is_complete self w))) \<noteq> S_RUN \<and>
       stdout (fst (snd (is_complete self w))) =
         (if p_stdout (process self) = PIPE
          then Some (out_data w (tick (snd (snd (is_complete self w))) - 1)) else None) \<and>
       stderr (fst (snd (is_complete self w))) =
         (if p_stderr (process self) = PIPE
          then Some (err_data w (tick (snd (snd (is_complete self w))) - 1)) else None)))"
proof (cases "exit_status w (tick w)")
  case (Some c)
  then show ?thesis
    using assms by (simp add: is_complete_exit split: option.splits)
next
  case None
  show ?thesis
  proof (cases "real_of_int (m_time self) < clock w (Suc (tick w)) - s_time self")
    case True
    then show ?thesis
      using assms None by (simp add: is_complete_timeout split: option.splits)
  next
    case False
    then show ?thesis
      using assms None by (simp add: is_complete_running)
  qed
qed

lemma kill_step:
  assumes "status self = S_RUN"
  shows
    "process (fst (snd (kill self w))) = process self \<and>
     out_data (snd (snd (kill self w))) = out_data w \<and>
     err_data (snd (snd (kill self w))) = err_data w \<and>
     ((n_stores A_stdout (snd (snd (kill self w))) = n_stores A_stdout w \<and>
       n_stores A_stderr (snd (snd (kill self w))) = n_stores A_stderr w \<and>
       stdout (fst (snd (kill self w))) = stdout self \<and>
       stderr (fst (snd (kill self w))) = stderr self \<and>
       fst (kill self w) \<noteq> None) \<or>
      (n_stores A_stdout (snd (snd (kill self w))) = Suc (n_stores A_stdout w) \<and>
       n_stores A_stderr (snd (snd (kill self w))) = Suc (n_stores A_stderr w) \<and>
       status (fst (snd (kill self w))) \<noteq> S_RUN \<and>
       stdout (fst (snd (kill self w))) =
         (if p_stdout (process self) = PIPE
          then Some (out_data w (tick (snd (snd (kill self w))) - 1)) else None) \<and>
       stderr (fst (snd (kill self w))) =
         (if p_stderr (process self) = PIPE
          then Some (err_data w (tick (snd (snd (kill self w))) - 1)) else None)))"
proof (cases "exit_status w (tick w)")
  case (Some c)
  then show ?thesis
    using assms by (simp add: kill_def is_complete_exit split: option.splits)
next
  case None
  show ?thesis
  proof (cases "real_of_int (m_time self) < clock w (Suc (tick w)) - s_time self")
    case True
    then show ?thesis
      using assms None by (simp add: kill_def is_complete_timeout split: option.splits)
  next
    case False
    then show ?thesis
      using assms None by (simp add: kill_killing split: option.splits)
  qed
qed

lemma is_timeout_is_complete:
  "snd (is_timeout self w) = snd (is_complete self w)"
  "returns Call_is_timeout (self, w) = returns Call_is_complete (self, w)"
  by (cases "is_complete self w"; cases "fst (is_complete self w)";
      simp add: is_timeout_def split: prod.splits)+

lemma check_code_is_complete:
  "snd (check_code self w) = snd (is_complete self w)"
  "returns Call_check_code (self, w) = returns Call_is_complete (self, w)"
  by (cases "is_complete self w"; cases "fst (is_complete self w)";
      simp add: check_code_def split: prod.splits)+

lemma do_call_step:
  assumes "status self = S_RUN"
  shows
    "process (fst (do_call c (self, w))) = process self \<and>
     out_data (snd (do_call c (self, w))) = out_data w \<and>
     err_data (snd (do_call c (self, w))) = err_data w \<and>
     ((n_stores A_stdout (snd (do_call c (self, w))) = n_stores A_stdout w \<and>
       n_stores A_stderr (snd (do_call c (self, w))) = n_stores A_stderr w \<and>
       stdout (fst (do_call c (self, w))) = stdout self \<and>
       stderr (fst (do_call c (self, w))) = stderr self \<and>
       (status (fst (do_call c (self, w))) \<noteq> S_RUN \<longrightarrow> \<not> returns c (self, w))) \<or>
      (n_stores A_stdout (snd (do_call c (self, w))) = Suc (n_stores A_stdout w) \<and>
       n_stores A_stderr (snd (do_call c (self, w))) = Suc (n_stores A_stderr w) \<and>
       status (fst (do_call c (self, w))) \<noteq> S_RUN \<and>
       stdout (fst (do_call c (self, w))) =
         (if p_stdout (process self) = PIPE
          then Some (out_data w (tick (snd (do_call c (self, w))) - 1)) else None) \<and>
       stderr (fst (do_call c (self, w))) =
         (if p_stderr (process self) = PIPE
          then Some (err_data w (tick (snd (do_call c (self, w))) - 1)) else None)))"
proof -
  have ic: "(\<exists>e. fst (is_complete self w) = Inl e) \<longleftrightarrow> \<not> returns Call_is_complete (self, w)"
    by (cases "fst (is_complete self w)") auto
  note S = is_complete_step [OF assms, of w, unfolded ic]
  show ?thesis
  proof (cases c)
    case Call_is_complete
    show ?thesis
      unfolding Call_is_complete do_call.simps by (rule S)
  next
    case Call_is_timeout
    show ?thesis
      unfolding Call_is_timeout do_call.simps is_timeout_is_complete by (rule S)
  next
    case Call_check_code
    show ?thesis
      unfolding Call_check_code do_call.simps check_code_is_complete by (rule S)
  next
    case Call_kill
    have k: "returns Call_kill (self, w) \<longleftrightarrow> fst (kill self w) = None"
      by simp
    show ?thesis
      unfolding Call_kill do_call.simps k
      using kill_step [OF assms, of w] by blast
  qed
qed

lemma do_calls_snoc: "do_calls (cs @ [c]) st = do_call c (do_calls cs st)"
  by (simp add: do_calls_def)

lemma all_return_snoc:
  "all_return (cs @ [c]) st = (all_return cs st \<and> returns c (do_calls cs st))"
  by (induction cs arbitrary: st) (simp_all add: do_calls_def del: returns.simps)

lemma lifetime_output:
  assumes "status b0 = S_RUN" and "stdout b0 = Some []" and "stderr b0 = Some []"
  shows
    "process (fst (do_calls cs (b0, w1))) = process b0 \<and>
     out_data (snd (do_calls cs (b0, w1))) = out_data w1 \<and>
     err_data (snd (do_calls cs (b0, w1))) = err_data w1 \<and>
     ((n_stores A_stdout (snd (do_calls cs (b0, w1))) = n_stores A_stdout w1 \<and>
       n_stores A_stderr (snd (do_calls cs (b0, w1))) = n_stores A_stderr w1 \<and>
       stdout (fst (do_calls cs (b0, w1))) = Some [] \<and>
       stderr (fst (do_calls cs (b0, w1))) = Some [] \<and>
       (status (fst (do_calls cs (b0, w1))) \<noteq> S_RUN \<longrightarrow> \<not> all_return cs (b0, w1))) \<or>
      (n_stores A_stdout (snd (do_calls cs (b0, w1))) = Suc (n_stores A_stdout w1) \<and>
       n_stores A_stderr (snd (do_calls cs (b0, w1))) = Suc (n_stores A_stderr w1) \<and>
       status (fst (do_calls cs (b0, w1))) \<noteq> S_RUN \<and>
       stdout (fst (do_calls cs (b0, w1))) =
         (if p_stdout (process b0) = PIPE
          then Some (out_data w1 (tick (snd (do_calls cs (b0, w1))) - 1)) else None) \<and>
       stderr (fst (do_calls cs (b0, w1))) =
         (if p_stderr (process b0) = PIPE
          then Some (err_data w1 (tick (snd (do_calls cs (b0, w1))) - 1)) else None)))"
  (is "?I cs")
proof (induction cs rule: rev_induct)
  case Nil
  then show ?case using assms by (simp add: do_calls_def)
next
  case (snoc c cs)
  obtain b w where X: "do_calls cs (b0, w1) = (b, w)"
    by (cases "do_calls cs (b0, w1)") auto
  note IH = snoc [unfolded X fst_conv snd_conv]
  show ?case
  proof (cases "status b = S_RUN")
    case False
    then have same: "do_calls (cs @ [c]) (b0, w1) = (b, w)"
      by (simp add: do_calls_snoc X do_call_terminal)
    have "all_return (cs @ [c]) (b0, w1) \<longrightarrow> all_return cs (b0, w1)"
      by (simp add: all_return_snoc)
    then show ?thesis
      using IH unfolding same fst_conv snd_conv by blast
  next
    case True
    have step: "do_calls (cs @ [c]) (b0, w1) = do_call c (b, w)"
      by (simp add: do_calls_snoc X)
    from IH True have
      p: "process b = process b0" "out_data w = out_data w1" "err_data w = err_data w1" and
      n: "n_stores A_stdout w = n_stores A_stdout w1" "n_stores A_stderr w = n_stores A_stderr w1" and
      e: "stdout b = Some []" "stderr b = Some []"
      by blast+
    have r: "all_return (cs @ [c]) (b0, w1) \<longrightarrow> returns c (b, w)"
      by (simp add: all_return_snoc X del: returns.simps)
    show ?thesis
      using do_call_step [OF True, of c w] r
      unfolding step p n e by blast
  qed
qed

lemma Bash_init_success:
  assumes "Bash_init a w0 = (Inr b0, w1)"
  shows "status b0 = S_RUN \<and> stdout b0 = Some [] \<and> stderr b0 = Some [] \<and>
    code b0 = None \<and> e_time b0 = None \<and>
    p_stdout (process b0) = a_stdout a \<and> p_stderr (process b0) = a_stderr a \<and>
    s_time b0 = clock w0 (tick w0) \<and>
    m_time b0 = (case a_m_time a of Some m \<Rightarrow> m | None \<Rightarrow> L_MAX_TIME) \<and>
    clock w1 = clock w0 \<and> out_data w1 = out_data w0 \<and> err_data w1 = err_data w0 \<and>
    trace w1 = trace w0 @ [Ev_time]"
  using assms
  by (auto simp: Bash_init_def Popen_def Let_def write_payload_def stdin_write_def
      stdin_close_def time_time_def observe_def
      split: option.splits pyval.splits if_splits)

text \<open>
  Claim C5, as the code has it. For an instance the constructor returned, after any
  sequence of method calls: either no method has stored \<open>stdout\<close> and \<open>stderr\<close> and both
  are the empty string, or each has been stored exactly once, the instance is terminal,
  and they hold what \<open>communicate\<close> returned at the last observation made: the text then
  read from the child when the stream was given as \<open>PIPE\<close>, and \<open>None\<close> for every other
  redirection. They are not stored while the instance is running, and they have been
  stored once the instance is terminal and every call has returned.
\<close>

theorem C5_captured_output:
  assumes "Bash_init a w0 = (Inr b0, w1)" and "do_calls cs (b0, w1) = (b, w)"
  shows
    "((n_stores A_stdout w = n_stores A_stdout w0 \<and> n_stores A_stderr w = n_stores A_stderr w0 \<and>
       stdout b = Some '''' \<and> stderr b = Some '''') \<or>
      (n_stores A_stdout w = Suc (n_stores A_stdout w0) \<and>
       n_stores A_stderr w = Suc (n_stores A_stderr w0) \<and>
       status b \<noteq> S_RUN \<and>
       stdout b = (if a_stdout a = PIPE then Some (out_data w0 (tick w - 1)) else None) \<and>
       stderr b = (if a_stderr a = PIPE then Some (err_data w0 (tick w - 1)) else None))) \<and>
     (status b = S_RUN \<longrightarrow>
        n_stores A_stdout w = n_stores A_stdout w0 \<and>
        n_stores A_stderr w = n_stores A_stderr w0) \<and>
     (status b \<noteq> S_RUN \<and> all_return cs (b0, w1) \<longrightarrow>
        n_stores A_stdout w = Suc (n_stores A_stdout w0) \<and>
        n_stores A_stderr w = Suc (n_stores A_stderr w0))"
proof -
  note i = Bash_init_success [OF assms(1)]
  have "status b0 = S_RUN" and "stdout b0 = Some []" and "stderr b0 = Some []"
    using i by simp_all
  note L = lifetime_output [OF this, of cs w1, unfolded assms(2) fst_conv snd_conv]
  have p: "p_stdout (process b0) = a_stdout a" "p_stderr (process b0) = a_stderr a"
      "out_data w1 = out_data w0" "err_data w1 = err_data w0"
      "n_stores A_stdout w1 = n_stores A_stdout w0"
      "n_stores A_stderr w1 = n_stores A_stderr w0"
    using i by (simp_all add: n_stores_def)
  show ?thesis
    using L unfolding p by blast
qed

lemma init_piped:
  "Bash_init ((defaults ''echo hi'')\<lparr>a_stdout := PIPE\<rparr>) exited_world
     = (Inr piped_bash, piped_world)"
  by (simp add: Bash_init_def defaults_def still_world_def exited_world_def bash0_def
      popen0_def piped_bash_def piped_world_def Popen_def time_time_def observe_def PIPE_def
      DEVNULL_def D_ARGS_def D_E_CODES_def D_MAX_TIME_def Let_def)

lemma piped_facts:
  "status piped_bash = S_RUN"
  "exit_status piped_world (tick piped_world) = Some 0"
  "process piped_bash = (popen0 ''echo hi'')\<lparr>p_stdout := PIPE\<rparr>"
  "out_data piped_world = (\<lambda>t. ''hi'')"
  "drain_error piped_world = (\<lambda>t. None)"
  "\<not> drain_broken piped_world"
  "trace piped_world = [Ev_time]"
  by (simp_all add: piped_bash_def piped_world_def bash0_def popen0_def exited_world_def
      still_world_def)

lemma piped_never_raises:
  "drain_error w = (\<lambda>t. None) \<Longrightarrow> \<not> drain_broken w \<Longrightarrow>
   communicate_error ((popen0 c)\<lparr>p_stdout := PIPE\<rparr>) w = None"
  by (simp add: communicate_error_def popen0_def PIPE_def)

lemma drain_error_steps [simp]:
  "drain_error (snd (set_status s st)) = drain_error (snd st)"
  "drain_error (snd (set_code c st)) = drain_error (snd st)"
  "drain_error (snd (stamp_e_time st)) = drain_error (snd st)"
  "drain_error (observe e w) = drain_error w"
  by (cases st; simp add: step_simps world_defs split: prod.splits)+

lemma piped_check:
  "is_complete piped_bash piped_world =
     (Inr True, Bash_log (snd (drain (stamp_e_time (set_status S_COMPLETE
        (set_code 0 (piped_bash, observe Ev_poll piped_world)))))))"
  using piped_facts
  by (simp add: is_complete_exit piped_never_raises)

lemma piped_calls:
  "do_calls [Call_is_complete, Call_kill] (piped_bash, piped_world)
     = snd (is_complete piped_bash piped_world) \<and>
   all_return [Call_is_complete, Call_kill] (piped_bash, piped_world)"
proof -
  let ?X = "snd (is_complete piped_bash piped_world)"
  have t: "status (fst ?X) \<noteq> S_RUN"
    using piped_facts by (simp add: piped_check)
  obtain b w where X: "?X = (b, w)" by (cases ?X) auto
  have b: "status b \<noteq> S_RUN" using t unfolding X by simp
  have "do_call Call_kill (b, w) = (b, w)"
    using b by (rule do_call_terminal)
  moreover have "returns Call_kill (b, w)"
    using b by (simp add: kill_def is_complete_terminal)
  moreover have "returns Call_is_complete (piped_bash, piped_world)"
    by (simp add: piped_check)
  ultimately show ?thesis
    by (simp add: do_calls_def X del: returns.simps)
qed

theorem C5_captured_output_witness:
  "Bash_init ((defaults ''echo hi'')\<lparr>a_stdout := PIPE\<rparr>) exited_world
     = (Inr piped_bash, piped_world) \<and>
   all_return [Call_is_complete, Call_kill] (piped_bash, piped_world) \<and>
   status (fst (do_calls [Call_is_complete, Call_kill] (piped_bash, piped_world))) \<noteq> S_RUN \<and>
   stdout (fst (do_calls [Call_is_complete, Call_kill] (piped_bash, piped_world))) = Some ''hi'' \<and>
   stderr (fst (do_calls [Call_is_complete, Call_kill] (piped_bash, piped_world))) = None \<and>
   n_stores A_stdout (snd (do_calls [Call_is_complete, Call_kill] (piped_bash, piped_world)))
     = 1 \<and>
   status (fst (do_calls [] (piped_bash, piped_world))) = S_RUN \<and>
   stdout (fst (do_calls [] (piped_bash, piped_world))) = Some ''''"
proof -
  let ?X = "do_calls [Call_is_complete, Call_kill] (piped_bash, piped_world)"
  have X: "?X = (fst ?X, snd ?X)" by simp
  have st: "status (fst ?X) \<noteq> S_RUN"
    using piped_facts by (simp add: piped_calls piped_check)
  have a: "a_stdout ((defaults ''echo hi'')\<lparr>a_stdout := PIPE\<rparr>) = PIPE \<and>
      a_stderr ((defaults ''echo hi'')\<lparr>a_stdout := PIPE\<rparr>) \<noteq> PIPE"
    by (simp add: defaults_def PIPE_def)
  have e: "out_data exited_world = (\<lambda>t. ''hi'') \<and> n_stores A_stdout exited_world = 0"
    by (simp add: exited_world_def still_world_def n_stores_def)
  have Y: "do_calls [] (piped_bash, piped_world) = (piped_bash, piped_world)"
    by (simp add: do_calls_def)
  show ?thesis
    using C5_captured_output [OF init_piped X] C5_captured_output [OF init_piped Y]
      init_piped st a e piped_facts(1) piped_calls
    by (auto simp: do_calls_def simp del: all_return.simps returns.simps)
qed

text \<open>
  \<open>Bash('true')\<close> with the default redirections, the child having exited: after the first
  completion check the instance is completed and both \<open>stdout\<close> and \<open>stderr\<close> are \<open>None\<close>,
  not strings.
\<close>

theorem C5_captured_output_counterexample:
  "Bash_init (defaults ''true'') exited_world
     = (Inr (bash0 ''true'' 60), started ''true'' exited_world) \<and>
   fst (is_complete (bash0 ''true'' 60) (started ''true'' exited_world)) = Inr True \<and>
   status (fst (snd (is_complete (bash0 ''true'' 60) (started ''true'' exited_world))))
     = S_COMPLETE \<and>
   stdout (fst (snd (is_complete (bash0 ''true'' 60) (started ''true'' exited_world)))) = None \<and>
   stderr (fst (snd (is_complete (bash0 ''true'' 60) (started ''true'' exited_world)))) = None"
proof -
  have "defaults ''true'' = (defaults ''true'')\<lparr>a_m_time := Some 60\<rparr>"
    by (simp add: defaults_def D_MAX_TIME_def)
  then have init: "Bash_init (defaults ''true'') exited_world
     = (Inr (bash0 ''true'' 60), started ''true'' exited_world)"
    using init_exited [where c = "''true''" and m = 60] by simp
  show ?thesis
    using init exited_facts [of "''true''"]
    by (simp add: is_complete_exit unpiped_never_raises)
qed


section \<open>The blocking runner\<close>














end
